theory Spec2Isabelle
  imports Main "HOL-Library.Monad_Syntax" "HOL-Library.Sublist"
begin

section \<open>The Tibero dialect of the migration tool (alembic/ddl/tibero.py)\<close>

text \<open>
  The module has two halves: the class \<open>TiberoImpl\<close> (the dialect's capability
  profile and its statement dispatch) and the functions registered with
  \<open>@compiles(..., "tibero")\<close>, one per schema-change operation, that produce the SQL
  text. Both are embedded here. A Python \<open>str\<close> is a \<^typ>\<open>string\<close>, \<open>None\<close> in an
  optional field is \<^const>\<open>None\<close>, and an operation that can raise returns an
  \<^typ>\<open>'a option\<close> whose \<^const>\<open>None\<close> is the exception.
\<close>

subsection \<open>Python's two string-formatting operations\<close>

text \<open>
  \<open>fmt % args\<close> with every argument a \<open>str\<close>. The format string is read left to
  right: \<open>%s\<close> takes the next argument as it is (an argument is never scanned for
  directives itself), \<open>%%\<close> is a literal percent sign. Python raises \<open>TypeError\<close>
  when the arguments run out or are left over and \<open>ValueError\<close> on an incomplete
  or unknown directive; the other conversion types do not occur in the module and end
  in \<^const>\<open>None\<close> here as well.
\<close>

fun percent_format :: "string \<Rightarrow> string list \<Rightarrow> string option" where
  "percent_format [] [] = Some []"
| "percent_format [] (a # args) = None"
| "percent_format (c # fs) args =
     (if c \<noteq> CHR ''%'' then map_option ((#) c) (percent_format fs args)
      else (case fs of
              [] \<Rightarrow> None
            | d # fs' \<Rightarrow>
                if d = CHR ''%'' then map_option ((#) c) (percent_format fs' args)
                else if d = CHR ''s'' then
                  (case args of
                     [] \<Rightarrow> None
                   | a # rest \<Rightarrow> map_option ((@) a) (percent_format fs' rest))
                else None))"

text \<open>
  \<open>fmt.format(**kwargs)\<close> with every value a \<open>str\<close>. The second argument is the
  replacement field being read (\<^const>\<open>None\<close> outside a field). \<open>{{\<close> and \<open>}}\<close>
  are literal braces, \<open>{name}\<close> is replaced by the keyword argument \<open>name\<close>
  (\<open>KeyError\<close> when there is none), a lone \<open>}\<close> or an unclosed field is a
  \<open>ValueError\<close>. Conversions, format specifications, attribute and index access and
  positional fields do not occur in the module: a field name that is empty or holds one
  of the characters \<open>! : . [ {\<close> ends in \<^const>\<open>None\<close>.
\<close>

fun str_format :: "(string \<rightharpoonup> string) \<Rightarrow> string option \<Rightarrow> string \<Rightarrow> string option" where
  "str_format kwargs None [] = Some []"
| "str_format kwargs (Some name) [] = None"
| "str_format kwargs None (c # cs) =
     (if c = CHR ''{'' then
        (case cs of
           [] \<Rightarrow> None
         | d # ds \<Rightarrow>
             if d = CHR ''{'' then map_option ((#) c) (str_format kwargs None ds)
             else str_format kwargs (Some []) cs)
      else if c = CHR ''}'' then
        (case cs of
           [] \<Rightarrow> None
         | d # ds \<Rightarrow>
             if d = CHR ''}'' then map_option ((#) c) (str_format kwargs None ds)
             else None)
      else map_option ((#) c) (str_format kwargs None cs))"
| "str_format kwargs (Some name) (c # cs) =
     (if c = CHR ''}'' then
        (if name = [] then None
         else (case kwargs name of
                 None \<Rightarrow> None
               | Some v \<Rightarrow> map_option ((@) v) (str_format kwargs None cs)))
      else if c \<in> set ''!:.[{'' then None
      else str_format kwargs (Some (name @ [c])) cs)"

subsection \<open>The compiler and the formatting services\<close>

text \<open>
  The renderers receive a DDL compiler and call the formatting functions of
  \<open>alembic/ddl/base.py\<close> on it. Those functions and the compiler's own methods belong
  to the identifier-quoting and literal-rendering collaborators, which are outside this
  module: they are the fields of the record below, pure functions to a string. The type
  variables stand for the column, type, server-default and identity objects that only
  the collaborators look into.
\<close>

record ('col, 'ty, 'dflt, 'ident) compiler =
  format_table_name :: "string \<Rightarrow> string option \<Rightarrow> string"
  format_column_name :: "string \<Rightarrow> string"
  format_type :: "'ty \<Rightarrow> string"
  format_server_default :: "'dflt \<Rightarrow> string"
  render_literal_value :: "string \<Rightarrow> string"
  get_column_specification :: "'col \<Rightarrow> string"
  compiler_visit_identity_column :: "'ident \<Rightarrow> string"

text \<open>
  Modelled from the spec: \<open>alter_table\<close> of \<open>alembic/ddl/base.py\<close> is not part of
  the module. Every rule of the renderer that uses it reads
  \<open>ALTER TABLE <table> ...\<close>, where \<open><table>\<close> is the table name formatted together
  with its schema.
\<close>

definition alter_table ::
  "('col, 'ty, 'dflt, 'ident) compiler \<Rightarrow> string \<Rightarrow> string option \<Rightarrow> string" where
  "alter_table compiler name schema =
     ''ALTER TABLE '' @ format_table_name compiler name schema"

definition alter_column ::
  "('col, 'ty, 'dflt, 'ident) compiler \<Rightarrow> string \<Rightarrow> string option" where
  "alter_column compiler name =
     percent_format ''MODIFY %s'' [format_column_name compiler name]"

definition add_column ::
  "('col, 'ty, 'dflt, 'ident) compiler \<Rightarrow> 'col \<Rightarrow> string option" where
  "add_column compiler column =
     percent_format ''ADD %s'' [get_column_specification compiler column]"

subsection \<open>The renderers\<close>

text \<open>
  Each renderer takes the compiler and the fields of its operation: \<open>table_name\<close>
  and \<open>schema\<close> first, then the fields of the operation's own class.
\<close>

definition visit_add_column ::
  "('col, 'ty, 'dflt, 'ident) compiler \<Rightarrow> string \<Rightarrow> string option \<Rightarrow> 'col \<Rightarrow> string option" where
  "visit_add_column compiler table_name schema column =
     do {
       a \<leftarrow> add_column compiler column;
       percent_format ''%s %s'' [alter_table compiler table_name schema, a]
     }"

definition visit_column_nullable ::
  "('col, 'ty, 'dflt, 'ident) compiler \<Rightarrow> string \<Rightarrow> string option \<Rightarrow> string \<Rightarrow> bool
     \<Rightarrow> string option" where
  "visit_column_nullable compiler table_name schema column_name nullable =
     do {
       m \<leftarrow> alter_column compiler column_name;
       percent_format ''%s %s %s''
         [alter_table compiler table_name schema, m,
          if nullable then ''NULL'' else ''NOT NULL'']
     }"

definition visit_column_type ::
  "('col, 'ty, 'dflt, 'ident) compiler \<Rightarrow> string \<Rightarrow> string option \<Rightarrow> string \<Rightarrow> 'ty
     \<Rightarrow> string option" where
  "visit_column_type compiler table_name schema column_name type' =
     do {
       m \<leftarrow> alter_column compiler column_name;
       t \<leftarrow> percent_format ''%s'' [format_type compiler type'];
       percent_format ''%s %s %s'' [alter_table compiler table_name schema, m, t]
     }"

definition visit_column_name ::
  "('col, 'ty, 'dflt, 'ident) compiler \<Rightarrow> string \<Rightarrow> string option \<Rightarrow> string \<Rightarrow> string
     \<Rightarrow> string option" where
  "visit_column_name compiler table_name schema column_name newname =
     percent_format ''%s RENAME COLUMN %s TO %s''
       [alter_table compiler table_name schema,
        format_column_name compiler column_name,
        format_column_name compiler newname]"

text \<open>
  In the source the conditional expression is the third element of the tuple: \<open>%\<close>
  binds tighter than \<open>if ... else\<close>, so the test chooses between the formatted
  default and the constant \<open>DEFAULT NULL\<close>.
\<close>

definition visit_column_default ::
  "('col, 'ty, 'dflt, 'ident) compiler \<Rightarrow> string \<Rightarrow> string option \<Rightarrow> string
     \<Rightarrow> 'dflt option \<Rightarrow> string option" where
  "visit_column_default compiler table_name schema column_name dflt =
     do {
       m \<leftarrow> alter_column compiler column_name;
       d \<leftarrow> (case dflt of
              Some v \<Rightarrow> percent_format ''DEFAULT %s'' [format_server_default compiler v]
            | None \<Rightarrow> Some ''DEFAULT NULL'');
       percent_format ''%s %s %s'' [alter_table compiler table_name schema, m, d]
     }"

text \<open>
  The comment renderer does not call \<open>alter_table\<close> or a name formatter: it puts
  \<open>element.table_name\<close> and \<open>element.column_name\<close> into the template as they are
  and never reads \<open>element.schema\<close>. The literal is rendered at the type
  \<open>sqltypes.String()\<close>, which is fixed, so the service takes the value only.
\<close>

definition visit_column_comment ::
  "('col, 'ty, 'dflt, 'ident) compiler \<Rightarrow> string \<Rightarrow> string option \<Rightarrow> string
     \<Rightarrow> string option \<Rightarrow> string option" where
  "visit_column_comment compiler table_name schema column_name comment =
     (let ddl = ''COMMENT ON COLUMN {table_name}.{column_name} IS {comment}'';
          comment' = render_literal_value compiler
                       (case comment of Some c \<Rightarrow> c | None \<Rightarrow> [])
      in str_format
           [''table_name'' \<mapsto> table_name,
            ''column_name'' \<mapsto> column_name,
            ''comment'' \<mapsto> comment']
           None ddl)"

definition visit_rename_table ::
  "('col, 'ty, 'dflt, 'ident) compiler \<Rightarrow> string \<Rightarrow> string option \<Rightarrow> string
     \<Rightarrow> string option" where
  "visit_rename_table compiler table_name schema new_table_name =
     percent_format ''%s RENAME TO %s''
       [alter_table compiler table_name schema,
        format_table_name compiler new_table_name None]"

definition visit_identity_column ::
  "('col, 'ty, 'dflt, 'ident) compiler \<Rightarrow> string \<Rightarrow> string option \<Rightarrow> string
     \<Rightarrow> 'ident option \<Rightarrow> string option" where
  "visit_identity_column compiler table_name schema column_name dflt =
     do {
       m \<leftarrow> alter_column compiler column_name;
       text \<leftarrow> percent_format ''%s %s '' [alter_table compiler table_name schema, m];
       (case dflt of
          None \<Rightarrow> Some (text @ ''DROP IDENTITY'')
        | Some ident \<Rightarrow> Some (text @ compiler_visit_identity_column compiler ident))
     }"

text \<open>
  The operations, and the dispatch that \<open>@compiles(<class>, "tibero")\<close> registers:
  each class of operation goes to its own renderer.
\<close>

datatype ('col, 'ty, 'dflt, 'ident) operation =
    AddColumn string "string option" 'col
  | RenameTable string "string option" string
  | ColumnNullable string "string option" string bool
  | ColumnType string "string option" string 'ty
  | ColumnName string "string option" string string
  | ColumnDefault string "string option" string "'dflt option"
  | ColumnComment string "string option" string "string option"
  | IdentityColumnDefault string "string option" string "'ident option"

fun render ::
  "('col, 'ty, 'dflt, 'ident) compiler \<Rightarrow> ('col, 'ty, 'dflt, 'ident) operation
     \<Rightarrow> string option" where
  "render compiler (AddColumn table_name schema column) =
     visit_add_column compiler table_name schema column"
| "render compiler (RenameTable table_name schema new_table_name) =
     visit_rename_table compiler table_name schema new_table_name"
| "render compiler (ColumnNullable table_name schema column_name nullable) =
     visit_column_nullable compiler table_name schema column_name nullable"
| "render compiler (ColumnType table_name schema column_name type') =
     visit_column_type compiler table_name schema column_name type'"
| "render compiler (ColumnName table_name schema column_name newname) =
     visit_column_name compiler table_name schema column_name newname"
| "render compiler (ColumnDefault table_name schema column_name dflt) =
     visit_column_default compiler table_name schema column_name dflt"
| "render compiler (ColumnComment table_name schema column_name comment) =
     visit_column_comment compiler table_name schema column_name comment"
| "render compiler (IdentityColumnDefault table_name schema column_name dflt) =
     visit_identity_column compiler table_name schema column_name dflt"

subsection \<open>The class TiberoImpl\<close>

text \<open>The class attributes.\<close>

definition TiberoImpl_dialect :: string where
  "TiberoImpl_dialect = ''tibero''"

definition TiberoImpl_transactional_ddl :: bool where
  "TiberoImpl_transactional_ddl = False"

definition TiberoImpl_batch_separator :: string where
  "TiberoImpl_batch_separator = ''/''"

definition TiberoImpl_command_terminator :: string where
  "TiberoImpl_command_terminator = []"

text \<open>
  \<open>type_synonyms\<close> is the tuple of the parent class followed by three sets of type
  names. \<open>DefaultImpl.type_synonyms\<close> is declared in \<open>alembic/ddl/impl.py\<close>,
  outside this module, so it is the argument.
\<close>

definition TiberoImpl_type_synonyms :: "string set list \<Rightarrow> string set list" where
  "TiberoImpl_type_synonyms DefaultImpl_type_synonyms =
     DefaultImpl_type_synonyms @
     [{''VARCHAR'', ''VARCHAR2''},
      {''BIGINT'', ''INTEGER'', ''SMALLINT'', ''DECIMAL'', ''NUMERIC'', ''NUMBER''},
      {''DOUBLE'', ''FLOAT'', ''DOUBLE_PRECISION''}]"

text \<open>
  An instance. \<open>as_sql\<close> is the mode: true when the statements go to a script, false
  when they go to a live connection. \<open>context_opts\<close> is the dictionary of options of
  the migration context, here with strings as values. \<open>output_buffer\<close> holds the
  texts written to the script, oldest first, one entry for each write. The connection is
  the external collaborator: it answers a statement with a result or raises an error of
  its own (\<^const>\<open>Inl\<close>); \<open>sent\<close> records the statements handed to it, oldest
  first.
\<close>

record ('e, 'r) impl =
  as_sql :: bool
  context_opts :: "string \<rightharpoonup> string"
  batch_separator :: string
  command_terminator :: string
  output_buffer :: "string list"
  connection :: "string \<Rightarrow> 'e + 'r"
  sent :: "string list"

text \<open>
  Modelled from the spec: \<open>DefaultImpl.__init__\<close> of \<open>alembic/ddl/impl.py\<close> is not
  part of the module. The profile is constructed once for a migration run: the
  constructor keeps the connection, the mode, the output buffer and the options of the
  context on the instance. An attribute that the instance does not set is read from the
  class, for this dialect the class attributes above.
\<close>

definition DefaultImpl_init ::
  "(string \<Rightarrow> 'e + 'r) \<Rightarrow> bool \<Rightarrow> string list \<Rightarrow> (string \<rightharpoonup> string) \<Rightarrow> ('e, 'r) impl" where
  "DefaultImpl_init conn script out opts =
     \<lparr> as_sql = script,
       context_opts = opts,
       batch_separator = TiberoImpl_batch_separator,
       command_terminator = TiberoImpl_command_terminator,
       output_buffer = out,
       connection = conn,
       sent = [] \<rparr>"

text \<open>
  Modelled from the spec: \<open>DefaultImpl.static_output\<close> of \<open>alembic/ddl/impl.py\<close> is
  not part of the module. It appends its text to the output buffer, as an entry of its
  own.
\<close>

definition static_output :: "('e, 'r) impl \<Rightarrow> string \<Rightarrow> ('e, 'r) impl" where
  "static_output self text = self\<lparr> output_buffer := output_buffer self @ [text] \<rparr>"

text \<open>
  Modelled from the spec: \<open>DefaultImpl._exec\<close> of \<open>alembic/ddl/impl.py\<close> is not
  part of the module. In script mode it appends the statement followed by the command
  terminator to the output buffer and returns nothing. In live mode it sends the
  statement to the connection and returns its result; an error of the connection is
  raised unchanged.
\<close>

definition DefaultImpl_exec ::
  "('e, 'r) impl \<Rightarrow> string \<Rightarrow> ('e + 'r option) \<times> ('e, 'r) impl" where
  "DefaultImpl_exec self construct =
     (if as_sql self then
        (Inr None, static_output self (construct @ command_terminator self))
      else
        (map_sum id Some (connection self construct),
         self\<lparr> sent := sent self @ [construct] \<rparr>))"

text \<open>
  \<open>TiberoImpl.__init__\<close>: after the parent's constructor, the batch separator becomes
  \<open>context_opts.get("tibero_batch_separator", self.batch_separator)\<close>.
\<close>

definition TiberoImpl_init ::
  "(string \<Rightarrow> 'e + 'r) \<Rightarrow> bool \<Rightarrow> string list \<Rightarrow> (string \<rightharpoonup> string) \<Rightarrow> ('e, 'r) impl" where
  "TiberoImpl_init conn script out opts =
     (let self = DefaultImpl_init conn script out opts
      in self\<lparr> batch_separator :=
                 (case context_opts self ''tibero_batch_separator'' of
                    Some v \<Rightarrow> v
                  | None \<Rightarrow> batch_separator self) \<rparr>)"

text \<open>
  \<open>TiberoImpl._exec\<close>: the parent's \<open>_exec\<close> first; an exception of it leaves the
  method at once. Then \<open>if self.as_sql and self.batch_separator\<close>, where a string is
  true when it is not empty, the separator is written with \<open>static_output\<close>. The
  result of the parent is returned.
\<close>

definition TiberoImpl_exec ::
  "('e, 'r) impl \<Rightarrow> string \<Rightarrow> ('e + 'r option) \<times> ('e, 'r) impl" where
  "TiberoImpl_exec self construct =
     (case DefaultImpl_exec self construct of
        (Inl e, self') \<Rightarrow> (Inl e, self')
      | (Inr result, self') \<Rightarrow>
          (Inr result,
           if as_sql self' \<and> batch_separator self' \<noteq> []
           then static_output self' (batch_separator self')
           else self'))"

definition emit_begin :: "('e, 'r) impl \<Rightarrow> ('e + unit) \<times> ('e, 'r) impl" where
  "emit_begin self =
     (case TiberoImpl_exec self ''SET TRANSACTION READ WRITE'' of
        (r, self') \<Rightarrow> (map_sum id (\<lambda>_. ()) r, self'))"

definition emit_commit :: "('e, 'r) impl \<Rightarrow> ('e + unit) \<times> ('e, 'r) impl" where
  "emit_commit self =
     (case TiberoImpl_exec self ''COMMIT'' of
        (r, self') \<Rightarrow> (map_sum id (\<lambda>_. ()) r, self'))"

text \<open>
  A migration pass dispatches its statements one after the other, each through
  \<open>_exec\<close>; an exception ends the pass.
\<close>

fun exec_all :: "('e, 'r) impl \<Rightarrow> string list \<Rightarrow> ('e + unit) \<times> ('e, 'r) impl" where
  "exec_all self [] = (Inr (), self)"
| "exec_all self (construct # rest) =
     (case TiberoImpl_exec self construct of
        (Inl e, self') \<Rightarrow> (Inl e, self')
      | (Inr result, self') \<Rightarrow> exec_all self' rest)"

subsection \<open>Type synonyms\<close>

text \<open>
  The invariant of the data model: no type name is in two distinct classes. Each class
  is compared with the classes after it in the tuple.
\<close>

fun pairwise_disjoint :: "string set list \<Rightarrow> bool" where
  "pairwise_disjoint [] = True"
| "pairwise_disjoint (c # classes) =
     (list_all (\<lambda>d. c = d \<or> c \<inter> d = {}) classes \<and> pairwise_disjoint classes)"

text \<open>
  Modelled from the spec: the resolver that compares two type names lives in
  \<open>alembic/ddl/impl.py\<close>, outside this module. It returns true iff \<open>a == b\<close>, or
  both \<open>a\<close> and \<open>b\<close> appear in the same entry of the profile's
  \<open>type_synonym_classes\<close>.
\<close>

definition equivalent :: "string \<Rightarrow> string \<Rightarrow> string set list \<Rightarrow> bool" where
  "equivalent a b type_synonym_classes =
     (a = b \<or> list_ex (\<lambda>c. a \<in> c \<and> b \<in> c) type_synonym_classes)"

subsection \<open>Example values\<close>

text \<open>
  A formatting service for the examples: identifiers that need no quoting are left as
  they are, a schema is put in front of the table with a dot, a string literal is put
  between single quotes.
\<close>

definition plain_compiler :: "(string, string, string, string) compiler" where
  "plain_compiler =
     \<lparr> format_table_name = (\<lambda>name schema.
          case schema of None \<Rightarrow> name | Some s \<Rightarrow> s @ ''.'' @ name),
       format_column_name = (\<lambda>name. name),
       format_type = (\<lambda>t. t),
       format_server_default = (\<lambda>d. d),
       render_literal_value = (\<lambda>v. [CHR 0x27] @ v @ [CHR 0x27]),
       get_column_specification = (\<lambda>c. c),
       compiler_visit_identity_column = (\<lambda>i. i) \<rparr>"

text \<open>
  Two instances for the examples, built with the constructor and no option of the
  context: one writes a script into an empty buffer, one has a live connection that
  accepts every statement.
\<close>

definition script_impl :: "('e, unit) impl" where
  "script_impl = TiberoImpl_init (\<lambda>statement. Inr ()) True [] Map.empty"

definition live_impl :: "('e, unit) impl" where
  "live_impl = TiberoImpl_init (\<lambda>statement. Inr ()) False [] Map.empty"

section \<open>Properties\<close>

lemma alter_column_eq:
  "alter_column compiler name = Some (''MODIFY '' @ format_column_name compiler name)"
  by (simp add: alter_column_def)

text \<open>
  C8. A ColumnNullable operation renders as \<open>ALTER TABLE <table> MODIFY <column> NULL\<close>
  when the flag is true and as \<open>ALTER TABLE <table> MODIFY <column> NOT NULL\<close> when it
  is false; for table T and column C without schema and the flag false the text is
  \<open>ALTER TABLE T MODIFY C NOT NULL\<close>.
\<close>

theorem render_column_nullable:
  "render compiler (ColumnNullable t s c True) =
     Some (''ALTER TABLE '' @ format_table_name compiler t s @ '' MODIFY ''
           @ format_column_name compiler c @ '' NULL'')
   \<and> render compiler (ColumnNullable t s c False) =
     Some (''ALTER TABLE '' @ format_table_name compiler t s @ '' MODIFY ''
           @ format_column_name compiler c @ '' NOT NULL'')
   \<and> render plain_compiler (ColumnNullable ''T'' None ''C'' False) =
     Some ''ALTER TABLE T MODIFY C NOT NULL''"
  by (simp add: visit_column_nullable_def alter_column_eq alter_table_def plain_compiler_def)

text \<open>
  C2. A ColumnDefault operation renders as
  \<open>ALTER TABLE <table> MODIFY <column> DEFAULT <expr>\<close> when a default is present,
  \<open><expr>\<close> being the formatted server default, and as
  \<open>ALTER TABLE <table> MODIFY <column> DEFAULT NULL\<close> when the default is absent; for
  table T and column C without schema and no default the text is
  \<open>ALTER TABLE T MODIFY C DEFAULT NULL\<close>.
\<close>

theorem render_column_default:
  "render compiler (ColumnDefault t s c (Some d)) =
     Some (''ALTER TABLE '' @ format_table_name compiler t s @ '' MODIFY ''
           @ format_column_name compiler c @ '' DEFAULT '' @ format_server_default compiler d)
   \<and> render compiler (ColumnDefault t s c None) =
     Some (''ALTER TABLE '' @ format_table_name compiler t s @ '' MODIFY ''
           @ format_column_name compiler c @ '' DEFAULT NULL'')
   \<and> render plain_compiler (ColumnDefault ''T'' None ''C'' None) =
     Some ''ALTER TABLE T MODIFY C DEFAULT NULL''"
  by (simp add: visit_column_default_def alter_column_eq alter_table_def plain_compiler_def)

text \<open>
  C3. What the code does for a ColumnComment operation: the text is
  \<open>COMMENT ON COLUMN <table_name>.<column_name> IS <literal>\<close> with the two names
  exactly as the operation carries them and the literal of the empty string when the
  comment is absent. The schema is not in the text and no name goes through a
  formatter: for table T in schema S the text names \<open>T.C\<close>, whereas the table formatter
  gives \<open>S.T\<close> and the ColumnNullable renderer on the same table writes \<open>S.T\<close>.
\<close>

theorem render_column_comment_drops_schema:
  "render compiler (ColumnComment t s c cm) =
     Some (''COMMENT ON COLUMN '' @ t @ ''.'' @ c @ '' IS ''
           @ render_literal_value compiler (case cm of Some x \<Rightarrow> x | None \<Rightarrow> []))
   \<and> render plain_compiler (ColumnComment ''T'' (Some ''S'') ''C'' (Some ''x'')) =
       Some (''COMMENT ON COLUMN T.C IS '' @ [CHR 0x27] @ ''x'' @ [CHR 0x27])
   \<and> format_table_name plain_compiler ''T'' (Some ''S'') = ''S.T''
   \<and> render plain_compiler (ColumnNullable ''T'' (Some ''S'') ''C'' True) =
       Some ''ALTER TABLE S.T MODIFY C NULL''"
  by (simp add: visit_column_comment_def visit_column_nullable_def alter_column_eq
        alter_table_def plain_compiler_def)

text \<open>
  C4. An IdentityColumnDefault operation without identity renders as
  \<open>ALTER TABLE <table> MODIFY <column> DROP IDENTITY\<close>, so the text ends with
  \<open>DROP IDENTITY\<close>; with an identity it renders as \<open>ALTER TABLE <table> MODIFY <column> \<close>
  followed by the clause that the compiler's identity formatter returns.
\<close>

theorem render_identity_column_default:
  "render compiler (IdentityColumnDefault t s c None) =
     Some (''ALTER TABLE '' @ format_table_name compiler t s @ '' MODIFY ''
           @ format_column_name compiler c @ '' DROP IDENTITY'')
   \<and> (\<exists>out. render compiler (IdentityColumnDefault t s c None) = Some out
          \<and> suffix ''DROP IDENTITY'' out)
   \<and> render compiler (IdentityColumnDefault t s c (Some i)) =
     Some (''ALTER TABLE '' @ format_table_name compiler t s @ '' MODIFY ''
           @ format_column_name compiler c @ '' '' @ compiler_visit_identity_column compiler i)"
  by (simp add: visit_identity_column_def alter_column_eq alter_table_def suffix_def)

text \<open>
  C9. A RenameTable operation renders as \<open>ALTER TABLE <table> RENAME TO <new_table>\<close>:
  the old name is formatted with the operation's schema, the new name is formatted with
  no schema whatever the operation's schema is. Without schema, T renamed to T2 gives
  \<open>ALTER TABLE T RENAME TO T2\<close>; in schema S it gives \<open>ALTER TABLE S.T RENAME TO T2\<close>.
\<close>

theorem render_rename_table:
  "render compiler (RenameTable t s new) =
     Some (''ALTER TABLE '' @ format_table_name compiler t s @ '' RENAME TO ''
           @ format_table_name compiler new None)
   \<and> render plain_compiler (RenameTable ''T'' None ''T2'') = Some ''ALTER TABLE T RENAME TO T2''
   \<and> render plain_compiler (RenameTable ''T'' (Some ''S'') ''T2'') =
       Some ''ALTER TABLE S.T RENAME TO T2''"
  by (simp add: visit_rename_table_def alter_table_def plain_compiler_def)

lemma TiberoImpl_exec_script:
  "as_sql self \<Longrightarrow>
   TiberoImpl_exec self c =
     (Inr None,
      self\<lparr> output_buffer := output_buffer self @
               (c @ command_terminator self) #
               (if batch_separator self = [] then [] else [batch_separator self]) \<rparr>)"
  by (simp add: TiberoImpl_exec_def DefaultImpl_exec_def static_output_def)

lemma TiberoImpl_exec_live:
  "\<not> as_sql self \<Longrightarrow>
   TiberoImpl_exec self c =
     (map_sum id Some (connection self c), self\<lparr> sent := sent self @ [c] \<rparr>)"
  by (cases "connection self c")
     (simp_all add: TiberoImpl_exec_def DefaultImpl_exec_def)

lemma exec_all_script_entries:
  "as_sql self \<Longrightarrow>
   exec_all self stmts =
     (Inr (),
      self\<lparr> output_buffer := output_buffer self @
               concat (map (\<lambda>c. (c @ command_terminator self) #
                                 (if batch_separator self = [] then []
                                  else [batch_separator self])) stmts) \<rparr>)"
proof (induction stmts arbitrary: self)
  case Nil
  then show ?case by simp
next
  case (Cons c stmts)
  let ?self' = "snd (TiberoImpl_exec self c)"
  from Cons.prems have step: "TiberoImpl_exec self c = (Inr None, ?self')"
    by (simp add: TiberoImpl_exec_script)
  from Cons.prems have "as_sql ?self'"
    by (simp add: TiberoImpl_exec_script)
  from Cons.IH [OF this] step Cons.prems show ?case
    by (simp add: TiberoImpl_exec_script)
qed

lemma exec_all_live:
  "\<not> as_sql self \<Longrightarrow>
   \<exists>k \<le> length stmts. snd (exec_all self stmts) = self\<lparr> sent := sent self @ take k stmts \<rparr>"
proof (induction stmts arbitrary: self)
  case Nil
  then show ?case by simp
next
  case (Cons c stmts)
  let ?self' = "self\<lparr> sent := sent self @ [c] \<rparr>"
  show ?case
  proof (cases "connection self c")
    case (Inl e)
    with Cons.prems have "snd (exec_all self (c # stmts)) = self\<lparr> sent := sent self @ take 1 (c # stmts) \<rparr>"
      by (simp add: TiberoImpl_exec_live)
    then show ?thesis by (intro exI [of _ 1]) simp
  next
    case (Inr r)
    from Cons.prems have "\<not> as_sql ?self'" by simp
    from Cons.IH [OF this] obtain k where k: "k \<le> length stmts"
      "snd (exec_all ?self' stmts) = ?self'\<lparr> sent := sent ?self' @ take k stmts \<rparr>"
      by blast
    with Cons.prems Inr have "snd (exec_all self (c # stmts)) = self\<lparr> sent := sent self @ take (Suc k) (c # stmts) \<rparr>"
      by (simp add: TiberoImpl_exec_live)
    with k(1) show ?thesis by (intro exI [of _ "Suc k"]) simp
  qed
qed

lemma alternating_nth:
  "i < length xs \<Longrightarrow>
   concat (map (\<lambda>c. [f c, s]) xs) ! (2 * i) = f (xs ! i)
   \<and> concat (map (\<lambda>c. [f c, s]) xs) ! (2 * i + 1) = s"
proof (induction xs arbitrary: i)
  case Nil
  then show ?case by simp
next
  case (Cons x xs)
  then show ?case by (cases i) simp_all
qed

lemma alternating_length: "length (concat (map (\<lambda>c. [f c, s]) xs)) = 2 * length xs"
  by (induction xs) simp_all

lemma concat_singletons: "concat (map (\<lambda>c. [f c]) xs) = map f xs"
  by (induction xs) simp_all

text \<open>
  C5. In script mode with a non-empty batch separator, a pass of N statements appends
  2N entries to the output buffer and nothing else: entry 2i is statement i followed by
  the command terminator and entry 2i+1 is the separator, so the separator is written
  exactly N times, each time right after its statement. In live mode a call of
  \<open>_exec\<close> hands the statement, and only the statement, to the connection and leaves
  the output buffer as it was; after a pass the connection has received a prefix of the
  statements and nothing else.
\<close>

theorem exec_all_separators:
  "(as_sql self \<and> batch_separator self \<noteq> [] \<longrightarrow>
      (\<exists>written.
         exec_all self stmts = (Inr (), self\<lparr> output_buffer := output_buffer self @ written \<rparr>)
         \<and> written = concat (map (\<lambda>c. [c @ command_terminator self, batch_separator self]) stmts)
         \<and> length written = 2 * length stmts
         \<and> (\<forall>i < length stmts.
               written ! (2 * i) = stmts ! i @ command_terminator self
               \<and> written ! (2 * i + 1) = batch_separator self)))
   \<and> (\<not> as_sql self \<longrightarrow>
        TiberoImpl_exec self c =
          (map_sum id Some (connection self c), self\<lparr> sent := sent self @ [c] \<rparr>)
        \<and> (\<exists>k \<le> length stmts.
              snd (exec_all self stmts) = self\<lparr> sent := sent self @ take k stmts \<rparr>))"
proof (intro conjI impI)
  assume a: "as_sql self \<and> batch_separator self \<noteq> []"
  let ?w = "concat (map (\<lambda>c. [c @ command_terminator self, batch_separator self]) stmts)"
  from a have "exec_all self stmts = (Inr (), self\<lparr> output_buffer := output_buffer self @ ?w \<rparr>)"
    by (simp add: exec_all_script_entries)
  moreover have "length ?w = 2 * length stmts"
    by (rule alternating_length)
  moreover have "\<forall>i < length stmts.
      ?w ! (2 * i) = stmts ! i @ command_terminator self \<and> ?w ! (2 * i + 1) = batch_separator self"
    using alternating_nth [of _ stmts "\<lambda>c. c @ command_terminator self" "batch_separator self"]
    by blast
  ultimately show "\<exists>written.
         exec_all self stmts = (Inr (), self\<lparr> output_buffer := output_buffer self @ written \<rparr>)
         \<and> written = concat (map (\<lambda>c. [c @ command_terminator self, batch_separator self]) stmts)
         \<and> length written = 2 * length stmts
         \<and> (\<forall>i < length stmts.
               written ! (2 * i) = stmts ! i @ command_terminator self
               \<and> written ! (2 * i + 1) = batch_separator self)"
    by blast
next
  assume "\<not> as_sql self"
  then show "TiberoImpl_exec self c =
          (map_sum id Some (connection self c), self\<lparr> sent := sent self @ [c] \<rparr>)"
    by (rule TiberoImpl_exec_live)
next
  assume "\<not> as_sql self"
  then show "\<exists>k \<le> length stmts.
              snd (exec_all self stmts) = self\<lparr> sent := sent self @ take k stmts \<rparr>"
    by (rule exec_all_live)
qed

theorem exec_all_separators_witness:
  "as_sql (script_impl :: (unit, unit) impl)
   \<and> batch_separator (script_impl :: (unit, unit) impl) \<noteq> []
   \<and> output_buffer (snd (exec_all (script_impl :: (unit, unit) impl)
         [''CREATE TABLE t (x INTEGER)'', ''DROP TABLE t''])) =
       [''CREATE TABLE t (x INTEGER)'', ''/'', ''DROP TABLE t'', ''/'']
   \<and> \<not> as_sql (live_impl :: (unit, unit) impl)
   \<and> snd (TiberoImpl_exec (live_impl :: (unit, unit) impl) ''DROP TABLE t'') =
       live_impl\<lparr> sent := [''DROP TABLE t''] \<rparr>"
proof -
  let ?s = "script_impl :: (unit, unit) impl"
  let ?l = "live_impl :: (unit, unit) impl"
  let ?stmts = "[''CREATE TABLE t (x INTEGER)'', ''DROP TABLE t'']"
  have s: "as_sql ?s" "batch_separator ?s = ''/''" "command_terminator ?s = []"
    "output_buffer ?s = []"
    by (simp_all add: script_impl_def TiberoImpl_init_def DefaultImpl_init_def
          TiberoImpl_batch_separator_def TiberoImpl_command_terminator_def)
  have l: "\<not> as_sql ?l" "sent ?l = []"
    by (simp_all add: live_impl_def TiberoImpl_init_def DefaultImpl_init_def)
  from s exec_all_separators [of ?s ?stmts] obtain written where
    w: "exec_all ?s ?stmts = (Inr (), ?s\<lparr> output_buffer := output_buffer ?s @ written \<rparr>)"
       "written = concat (map (\<lambda>c. [c @ command_terminator ?s, batch_separator ?s]) ?stmts)"
    by auto
  have "output_buffer (snd (exec_all ?s ?stmts)) = output_buffer ?s @ written"
    unfolding w(1) by simp
  also have "\<dots> = [''CREATE TABLE t (x INTEGER)'', ''/'', ''DROP TABLE t'', ''/'']"
    unfolding w(2) s by simp
  finally have script:
    "output_buffer (snd (exec_all ?s ?stmts)) =
       [''CREATE TABLE t (x INTEGER)'', ''/'', ''DROP TABLE t'', ''/'']" .
  from l exec_all_separators [of ?l "[]" "''DROP TABLE t''"] have
    "TiberoImpl_exec ?l ''DROP TABLE t'' =
       (map_sum id Some (connection ?l ''DROP TABLE t''),
        ?l\<lparr> sent := sent ?l @ [''DROP TABLE t''] \<rparr>)"
    by blast
  then have live: "snd (TiberoImpl_exec ?l ''DROP TABLE t'') = ?l\<lparr> sent := [''DROP TABLE t''] \<rparr>"
    by (simp add: l)
  from s l script live show ?thesis by simp
qed

lemma pairwise_disjoint_iff:
  "pairwise_disjoint classes \<longleftrightarrow>
     (\<forall>c \<in> set classes. \<forall>d \<in> set classes. c \<noteq> d \<longrightarrow> c \<inter> d = {})"
proof (induction classes)
  case Nil
  then show ?case by simp
next
  case (Cons a classes)
  show ?case
  proof
    assume l: "pairwise_disjoint (a # classes)"
    then have head: "\<forall>d \<in> set classes. a = d \<or> a \<inter> d = {}"
      by (simp add: list_all_iff)
    from l Cons.IH have tail: "\<forall>c \<in> set classes. \<forall>d \<in> set classes. c \<noteq> d \<longrightarrow> c \<inter> d = {}"
      by simp
    show "\<forall>c \<in> set (a # classes). \<forall>d \<in> set (a # classes). c \<noteq> d \<longrightarrow> c \<inter> d = {}"
    proof (intro ballI impI)
      fix c d
      assume c: "c \<in> set (a # classes)" and d: "d \<in> set (a # classes)" and ne: "c \<noteq> d"
      show "c \<inter> d = {}"
      proof (cases "c = a")
        case ca: True
        with d ne have "d \<in> set classes" by auto
        with head ca ne show ?thesis by auto
      next
        case cn: False
        with c have cs: "c \<in> set classes" by simp
        show ?thesis
        proof (cases "d = a")
          case True
          with head cs ne have "a \<inter> c = {}" by auto
          with True show ?thesis by (simp add: Int_commute)
        next
          case False
          with d have "d \<in> set classes" by simp
          with tail cs ne show ?thesis by simp
        qed
      qed
    qed
  next
    assume r: "\<forall>c \<in> set (a # classes). \<forall>d \<in> set (a # classes). c \<noteq> d \<longrightarrow> c \<inter> d = {}"
    have "\<forall>d \<in> set classes. a = d \<or> a \<inter> d = {}"
    proof
      fix d assume "d \<in> set classes"
      with r have "a \<noteq> d \<longrightarrow> a \<inter> d = {}" by simp
      then show "a = d \<or> a \<inter> d = {}" by blast
    qed
    moreover from r have "\<forall>c \<in> set classes. \<forall>d \<in> set classes. c \<noteq> d \<longrightarrow> c \<inter> d = {}"
      by simp
    ultimately show "pairwise_disjoint (a # classes)"
      using Cons.IH by (simp add: list_all_iff)
  qed
qed

lemma pairwise_disjoint_append:
  "pairwise_disjoint (xs @ ys) \<longleftrightarrow>
     pairwise_disjoint xs \<and> pairwise_disjoint ys
     \<and> (\<forall>c \<in> set xs. \<forall>d \<in> set ys. c \<noteq> d \<longrightarrow> c \<inter> d = {})"
proof
  assume "pairwise_disjoint (xs @ ys)"
  then show "pairwise_disjoint xs \<and> pairwise_disjoint ys
     \<and> (\<forall>c \<in> set xs. \<forall>d \<in> set ys. c \<noteq> d \<longrightarrow> c \<inter> d = {})"
    by (simp add: pairwise_disjoint_iff)
next
  assume r: "pairwise_disjoint xs \<and> pairwise_disjoint ys
     \<and> (\<forall>c \<in> set xs. \<forall>d \<in> set ys. c \<noteq> d \<longrightarrow> c \<inter> d = {})"
  show "pairwise_disjoint (xs @ ys)"
    unfolding pairwise_disjoint_iff
  proof (intro ballI impI)
    fix c d
    assume c: "c \<in> set (xs @ ys)" and d: "d \<in> set (xs @ ys)" and ne: "c \<noteq> d"
    show "c \<inter> d = {}"
    proof (cases "c \<in> set xs")
      case cx: True
      show ?thesis
      proof (cases "d \<in> set xs")
        case True
        with cx ne r show ?thesis by (simp add: pairwise_disjoint_iff)
      next
        case False
        with d have "d \<in> set ys" by simp
        with cx ne r show ?thesis by simp
      qed
    next
      case False
      with c have cy: "c \<in> set ys" by simp
      show ?thesis
      proof (cases "d \<in> set xs")
        case True
        with cy ne r have "d \<inter> c = {}" by simp
        then show ?thesis by (simp add: Int_commute)
      next
        case False
        with d have "d \<in> set ys" by simp
        with cy ne r show ?thesis by (simp add: pairwise_disjoint_iff)
      qed
    qed
  qed
qed

lemma varchar_numeric_disjoint:
  "{''VARCHAR'', ''VARCHAR2''} \<inter>
     {''BIGINT'', ''INTEGER'', ''SMALLINT'', ''DECIMAL'', ''NUMERIC'', ''NUMBER''} = {}"
  by simp

lemma varchar_double_disjoint:
  "{''VARCHAR'', ''VARCHAR2''} \<inter> {''DOUBLE'', ''FLOAT'', ''DOUBLE_PRECISION''} = {}"
  by simp

lemma numeric_double_disjoint:
  "{''BIGINT'', ''INTEGER'', ''SMALLINT'', ''DECIMAL'', ''NUMERIC'', ''NUMBER''} \<inter>
     {''DOUBLE'', ''FLOAT'', ''DOUBLE_PRECISION''} = {}"
  by simp

lemma tibero_classes_disjoint: "pairwise_disjoint (TiberoImpl_type_synonyms [])"
  unfolding pairwise_disjoint_iff TiberoImpl_type_synonyms_def
  using varchar_numeric_disjoint varchar_double_disjoint numeric_double_disjoint
  by (simp add: Int_commute)

lemma pairwise_disjointD:
  "pairwise_disjoint classes \<Longrightarrow> c \<in> set classes \<Longrightarrow> d \<in> set classes \<Longrightarrow> c \<noteq> d
     \<Longrightarrow> c \<inter> d = {}"
  by (simp add: pairwise_disjoint_iff)

lemma differ_by_member: "x \<in> B \<Longrightarrow> x \<notin> A \<Longrightarrow> A \<noteq> B"
  by blast

lemma common_member: "x \<in> A \<Longrightarrow> x \<in> B \<Longrightarrow> A \<inter> B \<noteq> {}"
  by blast

text \<open>
  C1 (amended). The three classes that the dialect adds are pairwise disjoint. The whole
  tuple, the classes of the parent followed by these three, is pairwise disjoint exactly
  when the classes of the parent are pairwise disjoint and no class of the parent shares
  a type name with one of the three that it differs from.
\<close>

theorem type_synonyms_disjoint_iff:
  "pairwise_disjoint (TiberoImpl_type_synonyms [])
   \<and> (pairwise_disjoint (TiberoImpl_type_synonyms base) \<longleftrightarrow>
        pairwise_disjoint base
        \<and> (\<forall>c \<in> set base. \<forall>d \<in> set (TiberoImpl_type_synonyms []). c \<noteq> d \<longrightarrow> c \<inter> d = {}))"
proof (rule conjI)
  show "pairwise_disjoint (TiberoImpl_type_synonyms [])"
    by (rule tibero_classes_disjoint)
next
  have "TiberoImpl_type_synonyms base = base @ TiberoImpl_type_synonyms []"
    by (simp add: TiberoImpl_type_synonyms_def)
  then have "pairwise_disjoint (TiberoImpl_type_synonyms base) \<longleftrightarrow>
      pairwise_disjoint (base @ TiberoImpl_type_synonyms [])"
    by (rule arg_cong)
  also have "\<dots> \<longleftrightarrow> pairwise_disjoint base \<and> pairwise_disjoint (TiberoImpl_type_synonyms [])
      \<and> (\<forall>c \<in> set base. \<forall>d \<in> set (TiberoImpl_type_synonyms []). c \<noteq> d \<longrightarrow> c \<inter> d = {})"
    by (rule pairwise_disjoint_append)
  also have "\<dots> \<longleftrightarrow> pairwise_disjoint base
      \<and> (\<forall>c \<in> set base. \<forall>d \<in> set (TiberoImpl_type_synonyms []). c \<noteq> d \<longrightarrow> c \<inter> d = {})"
    using tibero_classes_disjoint by (simp only: simp_thms)
  finally show "pairwise_disjoint (TiberoImpl_type_synonyms base) \<longleftrightarrow>
        pairwise_disjoint base
        \<and> (\<forall>c \<in> set base. \<forall>d \<in> set (TiberoImpl_type_synonyms []). c \<noteq> d \<longrightarrow> c \<inter> d = {})" .
qed

theorem type_synonyms_disjoint_witness:
  "pairwise_disjoint [{''TEXT'', ''CLOB''}]
   \<and> pairwise_disjoint (TiberoImpl_type_synonyms [{''TEXT'', ''CLOB''}])"
proof -
  have b: "pairwise_disjoint [{''TEXT'', ''CLOB''}]"
    by (simp add: pairwise_disjoint_iff)
  have c: "\<forall>c \<in> set [{''TEXT'', ''CLOB''}]. \<forall>d \<in> set (TiberoImpl_type_synonyms []).
             c \<noteq> d \<longrightarrow> c \<inter> d = {}"
    by (simp add: TiberoImpl_type_synonyms_def)
  from type_synonyms_disjoint_iff [of "[{''TEXT'', ''CLOB''}]"]
  have eq: "pairwise_disjoint (TiberoImpl_type_synonyms [{''TEXT'', ''CLOB''}]) \<longleftrightarrow>
      pairwise_disjoint [{''TEXT'', ''CLOB''}]
      \<and> (\<forall>c \<in> set [{''TEXT'', ''CLOB''}]. \<forall>d \<in> set (TiberoImpl_type_synonyms []).
            c \<noteq> d \<longrightarrow> c \<inter> d = {})"
    by (rule conjunct2)
  have "pairwise_disjoint (TiberoImpl_type_synonyms [{''TEXT'', ''CLOB''}])"
    unfolding eq using b c by (rule conjI)
  with b c show ?thesis by (intro conjI)
qed

text \<open>
  C1 as stated fails when the parent declares a class of names that the dialect lists
  again: with the parent's class \<open>{NUMERIC, DECIMAL}\<close> both names are also in the
  dialect's class of integer and decimal names.
\<close>

theorem type_synonyms_overlap:
  "\<not> pairwise_disjoint (TiberoImpl_type_synonyms [{''NUMERIC'', ''DECIMAL''}])"
proof
  let ?b = "{''NUMERIC'', ''DECIMAL''}"
  let ?n = "{''BIGINT'', ''INTEGER'', ''SMALLINT'', ''DECIMAL'', ''NUMERIC'', ''NUMBER''}"
  assume disjoint: "pairwise_disjoint (TiberoImpl_type_synonyms [?b])"
  have b: "?b \<in> set (TiberoImpl_type_synonyms [?b])"
    by (simp add: TiberoImpl_type_synonyms_def)
  have n: "?n \<in> set (TiberoImpl_type_synonyms [?b])"
    by (simp add: TiberoImpl_type_synonyms_def)
  have "''BIGINT'' \<in> ?n" and "''BIGINT'' \<notin> ?b" by simp_all
  then have ne: "?b \<noteq> ?n" by (rule differ_by_member)
  have "''NUMERIC'' \<in> ?b" and "''NUMERIC'' \<in> ?n" by simp_all
  then have "?b \<inter> ?n \<noteq> {}" by (rule common_member)
  moreover from disjoint b n ne have "?b \<inter> ?n = {}" by (rule pairwise_disjointD)
  ultimately show False by (rule notE)
qed

lemma equivalent_iff:
  "equivalent a b classes \<longleftrightarrow> a = b \<or> (\<exists>c \<in> set classes. a \<in> c \<and> b \<in> c)"
  by (simp add: equivalent_def list_ex_iff)

text \<open>
  C6 (amended). \<open>equivalent a b\<close> holds iff the two names are equal or one class of
  the profile holds both. So it is reflexive and symmetric, and it is false for two
  different names that no single class holds together. When the classes of the profile
  are pairwise disjoint, this is the case for every two different names that lie in two
  distinct classes. With the single class \<open>{VARCHAR, VARCHAR2}\<close>, VARCHAR and VARCHAR2
  are equivalent and VARCHAR and INTEGER are not.
\<close>

theorem equivalent_spec:
  "(equivalent a b classes \<longleftrightarrow> a = b \<or> (\<exists>c \<in> set classes. a \<in> c \<and> b \<in> c))
   \<and> equivalent a a classes
   \<and> (equivalent a b classes \<longleftrightarrow> equivalent b a classes)
   \<and> (a \<noteq> b \<and> \<not> (\<exists>c \<in> set classes. a \<in> c \<and> b \<in> c) \<longrightarrow> \<not> equivalent a b classes)
   \<and> (a \<noteq> b \<and> pairwise_disjoint classes \<and> c \<in> set classes \<and> d \<in> set classes
        \<and> c \<noteq> d \<and> a \<in> c \<and> b \<in> d \<longrightarrow> \<not> equivalent a b classes)
   \<and> equivalent ''VARCHAR'' ''VARCHAR2'' [{''VARCHAR'', ''VARCHAR2''}]
   \<and> \<not> equivalent ''VARCHAR'' ''INTEGER'' [{''VARCHAR'', ''VARCHAR2''}]"
proof (intro conjI impI)
  show "equivalent a b classes \<longleftrightarrow> a = b \<or> (\<exists>c \<in> set classes. a \<in> c \<and> b \<in> c)"
    by (rule equivalent_iff)
  show "equivalent a a classes"
    by (simp add: equivalent_def)
  show "equivalent a b classes \<longleftrightarrow> equivalent b a classes"
    unfolding equivalent_iff by blast
  show "equivalent ''VARCHAR'' ''VARCHAR2'' [{''VARCHAR'', ''VARCHAR2''}]"
    by (simp add: equivalent_def)
  show "\<not> equivalent ''VARCHAR'' ''INTEGER'' [{''VARCHAR'', ''VARCHAR2''}]"
    by (simp add: equivalent_def)
next
  assume "a \<noteq> b \<and> \<not> (\<exists>c \<in> set classes. a \<in> c \<and> b \<in> c)"
  then show "\<not> equivalent a b classes"
    unfolding equivalent_iff by blast
next
  assume h: "a \<noteq> b \<and> pairwise_disjoint classes \<and> c \<in> set classes \<and> d \<in> set classes
        \<and> c \<noteq> d \<and> a \<in> c \<and> b \<in> d"
  then have ab: "a \<noteq> b" and pd: "pairwise_disjoint classes"
    and c: "c \<in> set classes" "a \<in> c" and d: "d \<in> set classes" "b \<in> d" and cd: "c \<noteq> d"
    by simp_all
  show "\<not> equivalent a b classes"
  proof
    assume "equivalent a b classes"
    with ab obtain e where e: "e \<in> set classes" "a \<in> e" "b \<in> e"
      unfolding equivalent_iff by blast
    have "e = c"
    proof (rule ccontr)
      assume "e \<noteq> c"
      with pd e(1) c(1) have "e \<inter> c = {}" by (rule pairwise_disjointD)
      with e(2) c(2) show False by blast
    qed
    moreover have "e = d"
    proof (rule ccontr)
      assume "e \<noteq> d"
      with pd e(1) d(1) have "e \<inter> d = {}" by (rule pairwise_disjointD)
      with e(3) d(2) show False by blast
    qed
    ultimately show False using cd by simp
  qed
qed

theorem equivalent_spec_witness:
  "\<not> equivalent ''VARCHAR'' ''DOUBLE'' (TiberoImpl_type_synonyms [{''NUMERIC'', ''DECIMAL''}])
   \<and> \<not> equivalent ''VARCHAR'' ''DOUBLE'' (TiberoImpl_type_synonyms [])"
proof -
  let ?v = "{''VARCHAR'', ''VARCHAR2''}"
  let ?d = "{''DOUBLE'', ''FLOAT'', ''DOUBLE_PRECISION''}"
  let ?p = "TiberoImpl_type_synonyms [{''NUMERIC'', ''DECIMAL''}]"
  have none: "''VARCHAR'' \<noteq> ''DOUBLE'' \<and> \<not> (\<exists>c \<in> set ?p. ''VARCHAR'' \<in> c \<and> ''DOUBLE'' \<in> c)"
    by (simp add: TiberoImpl_type_synonyms_def)
  from equivalent_spec [of "''VARCHAR''" "''DOUBLE''" ?p ?v ?d]
  have "''VARCHAR'' \<noteq> ''DOUBLE'' \<and> \<not> (\<exists>c \<in> set ?p. ''VARCHAR'' \<in> c \<and> ''DOUBLE'' \<in> c)
      \<longrightarrow> \<not> equivalent ''VARCHAR'' ''DOUBLE'' ?p"
    by (elim conjE)
  from this none have overlapping: "\<not> equivalent ''VARCHAR'' ''DOUBLE'' ?p"
    by (rule mp)
  have "''DOUBLE'' \<in> ?d" and "''DOUBLE'' \<notin> ?v" by simp_all
  then have ne: "?v \<noteq> ?d" by (rule differ_by_member)
  have "''VARCHAR'' \<noteq> ''DOUBLE''" by simp
  moreover note tibero_classes_disjoint
  moreover have "?v \<in> set (TiberoImpl_type_synonyms [])"
    and "?d \<in> set (TiberoImpl_type_synonyms [])"
    by (simp_all add: TiberoImpl_type_synonyms_def)
  moreover note ne
  moreover have "''VARCHAR'' \<in> ?v" and "''DOUBLE'' \<in> ?d" by simp_all
  ultimately have "''VARCHAR'' \<noteq> ''DOUBLE'' \<and> pairwise_disjoint (TiberoImpl_type_synonyms [])
      \<and> ?v \<in> set (TiberoImpl_type_synonyms []) \<and> ?d \<in> set (TiberoImpl_type_synonyms [])
      \<and> ?v \<noteq> ?d \<and> ''VARCHAR'' \<in> ?v \<and> ''DOUBLE'' \<in> ?d"
    by (intro conjI)
  moreover from equivalent_spec [of "''VARCHAR''" "''DOUBLE''" "TiberoImpl_type_synonyms []" ?v ?d]
  have "''VARCHAR'' \<noteq> ''DOUBLE'' \<and> pairwise_disjoint (TiberoImpl_type_synonyms [])
      \<and> ?v \<in> set (TiberoImpl_type_synonyms []) \<and> ?d \<in> set (TiberoImpl_type_synonyms [])
      \<and> ?v \<noteq> ?d \<and> ''VARCHAR'' \<in> ?v \<and> ''DOUBLE'' \<in> ?d
      \<longrightarrow> \<not> equivalent ''VARCHAR'' ''DOUBLE'' (TiberoImpl_type_synonyms [])"
    by (elim conjE)
  ultimately have "\<not> equivalent ''VARCHAR'' ''DOUBLE'' (TiberoImpl_type_synonyms [])"
    by (rule rev_mp)
  with overlapping show ?thesis by (rule conjI)
qed

text \<open>
  C6 as stated fails where two classes of the profile overlap. With the parent's class
  \<open>{NUMERIC, DECIMAL}\<close> in front of the dialect's three, NUMERIC is in the parent's
  class and BIGINT is in the dialect's class of integer and decimal names: two different
  names in two distinct classes. They are equivalent all the same, because the dialect's
  class holds NUMERIC as well.
\<close>

theorem equivalent_distinct_classes:
  "''NUMERIC'' \<noteq> ''BIGINT''
   \<and> {''NUMERIC'', ''DECIMAL''} \<in> set (TiberoImpl_type_synonyms [{''NUMERIC'', ''DECIMAL''}])
   \<and> {''BIGINT'', ''INTEGER'', ''SMALLINT'', ''DECIMAL'', ''NUMERIC'', ''NUMBER''}
       \<in> set (TiberoImpl_type_synonyms [{''NUMERIC'', ''DECIMAL''}])
   \<and> {''NUMERIC'', ''DECIMAL''} \<noteq>
       {''BIGINT'', ''INTEGER'', ''SMALLINT'', ''DECIMAL'', ''NUMERIC'', ''NUMBER''}
   \<and> ''NUMERIC'' \<in> {''NUMERIC'', ''DECIMAL''}
   \<and> ''BIGINT'' \<in> {''BIGINT'', ''INTEGER'', ''SMALLINT'', ''DECIMAL'', ''NUMERIC'', ''NUMBER''}
   \<and> equivalent ''NUMERIC'' ''BIGINT'' (TiberoImpl_type_synonyms [{''NUMERIC'', ''DECIMAL''}])"
proof (intro conjI)
  let ?b = "{''NUMERIC'', ''DECIMAL''}"
  let ?n = "{''BIGINT'', ''INTEGER'', ''SMALLINT'', ''DECIMAL'', ''NUMERIC'', ''NUMBER''}"
  show "''NUMERIC'' \<noteq> ''BIGINT''" by simp
  show "?b \<in> set (TiberoImpl_type_synonyms [?b])"
    by (simp add: TiberoImpl_type_synonyms_def)
  show "?n \<in> set (TiberoImpl_type_synonyms [?b])"
    by (simp add: TiberoImpl_type_synonyms_def)
  have "''BIGINT'' \<in> ?n" and "''BIGINT'' \<notin> ?b" by simp_all
  then show "?b \<noteq> ?n" by (rule differ_by_member)
  show "''NUMERIC'' \<in> ?b" by simp
  show "''BIGINT'' \<in> ?n" by simp
  show "equivalent ''NUMERIC'' ''BIGINT'' (TiberoImpl_type_synonyms [?b])"
    by (simp add: equivalent_def TiberoImpl_type_synonyms_def)
qed

text \<open>
  C7. The class declares \<open>transactional_ddl = False\<close>. \<open>emit_begin\<close> is one call of
  \<open>_exec\<close> with the statement \<open>SET TRANSACTION READ WRITE\<close> and \<open>emit_commit\<close> is
  one call with \<open>COMMIT\<close>: each is the pass of that single statement. In live mode
  the connection receives exactly that statement; in script mode the output buffer
  receives it with the command terminator, and then the batch separator when there is
  one.
\<close>

theorem emit_begin_commit:
  "\<not> TiberoImpl_transactional_ddl
   \<and> emit_begin self = exec_all self [''SET TRANSACTION READ WRITE'']
   \<and> emit_commit self = exec_all self [''COMMIT'']
   \<and> (\<not> as_sql self \<longrightarrow>
        snd (emit_begin self) = self\<lparr> sent := sent self @ [''SET TRANSACTION READ WRITE''] \<rparr>
        \<and> snd (emit_commit self) = self\<lparr> sent := sent self @ [''COMMIT''] \<rparr>)
   \<and> (as_sql self \<longrightarrow>
        snd (emit_begin self) =
          self\<lparr> output_buffer := output_buffer self @
                  (''SET TRANSACTION READ WRITE'' @ command_terminator self) #
                  (if batch_separator self = [] then [] else [batch_separator self]) \<rparr>
        \<and> snd (emit_commit self) =
          self\<lparr> output_buffer := output_buffer self @
                  (''COMMIT'' @ command_terminator self) #
                  (if batch_separator self = [] then [] else [batch_separator self]) \<rparr>)"
proof (intro conjI impI)
  show "\<not> TiberoImpl_transactional_ddl"
    by (simp add: TiberoImpl_transactional_ddl_def)
  show "emit_begin self = exec_all self [''SET TRANSACTION READ WRITE'']"
    by (simp add: emit_begin_def split: prod.splits sum.splits)
  show "emit_commit self = exec_all self [''COMMIT'']"
    by (simp add: emit_commit_def split: prod.splits sum.splits)
next
  assume "\<not> as_sql self"
  then show "snd (emit_begin self) = self\<lparr> sent := sent self @ [''SET TRANSACTION READ WRITE''] \<rparr>"
    by (simp add: emit_begin_def TiberoImpl_exec_live)
next
  assume "\<not> as_sql self"
  then show "snd (emit_commit self) = self\<lparr> sent := sent self @ [''COMMIT''] \<rparr>"
    by (simp add: emit_commit_def TiberoImpl_exec_live)
next
  assume "as_sql self"
  then show "snd (emit_begin self) =
          self\<lparr> output_buffer := output_buffer self @
                  (''SET TRANSACTION READ WRITE'' @ command_terminator self) #
                  (if batch_separator self = [] then [] else [batch_separator self]) \<rparr>"
    by (simp add: emit_begin_def TiberoImpl_exec_script)
next
  assume "as_sql self"
  then show "snd (emit_commit self) =
          self\<lparr> output_buffer := output_buffer self @
                  (''COMMIT'' @ command_terminator self) #
                  (if batch_separator self = [] then [] else [batch_separator self]) \<rparr>"
    by (simp add: emit_commit_def TiberoImpl_exec_script)
qed

theorem emit_begin_commit_witness:
  "sent (snd (emit_begin (live_impl :: (unit, unit) impl))) = [''SET TRANSACTION READ WRITE'']
   \<and> sent (snd (emit_commit (live_impl :: (unit, unit) impl))) = [''COMMIT'']
   \<and> output_buffer (snd (emit_begin (script_impl :: (unit, unit) impl))) =
       [''SET TRANSACTION READ WRITE'', ''/'']
   \<and> output_buffer (snd (emit_commit (script_impl :: (unit, unit) impl))) = [''COMMIT'', ''/'']"
proof -
  let ?s = "script_impl :: (unit, unit) impl"
  let ?l = "live_impl :: (unit, unit) impl"
  have s: "as_sql ?s" "batch_separator ?s = ''/''" "command_terminator ?s = []"
    "output_buffer ?s = []"
    by (simp_all add: script_impl_def TiberoImpl_init_def DefaultImpl_init_def
          TiberoImpl_batch_separator_def TiberoImpl_command_terminator_def)
  have l: "\<not> as_sql ?l" "sent ?l = []"
    by (simp_all add: live_impl_def TiberoImpl_init_def DefaultImpl_init_def)
  from emit_begin_commit [of ?l] have
    "\<not> as_sql ?l \<longrightarrow>
       snd (emit_begin ?l) = ?l\<lparr> sent := sent ?l @ [''SET TRANSACTION READ WRITE''] \<rparr>
       \<and> snd (emit_commit ?l) = ?l\<lparr> sent := sent ?l @ [''COMMIT''] \<rparr>"
    by (elim conjE)
  from this l(1) have
    "snd (emit_begin ?l) = ?l\<lparr> sent := sent ?l @ [''SET TRANSACTION READ WRITE''] \<rparr>
     \<and> snd (emit_commit ?l) = ?l\<lparr> sent := sent ?l @ [''COMMIT''] \<rparr>"
    by (rule mp)
  then have live: "sent (snd (emit_begin ?l)) = [''SET TRANSACTION READ WRITE'']"
    "sent (snd (emit_commit ?l)) = [''COMMIT'']"
    by (simp_all add: l)
  from emit_begin_commit [of ?s] have
    "as_sql ?s \<longrightarrow>
       snd (emit_begin ?s) =
          ?s\<lparr> output_buffer := output_buffer ?s @
                  (''SET TRANSACTION READ WRITE'' @ command_terminator ?s) #
                  (if batch_separator ?s = [] then [] else [batch_separator ?s]) \<rparr>
       \<and> snd (emit_commit ?s) =
          ?s\<lparr> output_buffer := output_buffer ?s @
                  (''COMMIT'' @ command_terminator ?s) #
                  (if batch_separator ?s = [] then [] else [batch_separator ?s]) \<rparr>"
    by (elim conjE)
  from this s(1) have
    "snd (emit_begin ?s) =
          ?s\<lparr> output_buffer := output_buffer ?s @
                  (''SET TRANSACTION READ WRITE'' @ command_terminator ?s) #
                  (if batch_separator ?s = [] then [] else [batch_separator ?s]) \<rparr>
       \<and> snd (emit_commit ?s) =
          ?s\<lparr> output_buffer := output_buffer ?s @
                  (''COMMIT'' @ command_terminator ?s) #
                  (if batch_separator ?s = [] then [] else [batch_separator ?s]) \<rparr>"
    by (rule mp)
  then have script: "output_buffer (snd (emit_begin ?s)) = [''SET TRANSACTION READ WRITE'', ''/'']"
    "output_buffer (snd (emit_commit ?s)) = [''COMMIT'', ''/'']"
    by (simp_all add: s)
  from live script show ?thesis by (intro conjI)
qed

lemma TiberoImpl_init_fields:
  "as_sql (TiberoImpl_init conn script out opts) = script"
  "command_terminator (TiberoImpl_init conn script out opts) = []"
  "output_buffer (TiberoImpl_init conn script out opts) = out"
  "batch_separator (TiberoImpl_init conn script out opts) =
     (case opts ''tibero_batch_separator'' of None \<Rightarrow> ''/'' | Some v \<Rightarrow> v)"
  by (simp_all add: TiberoImpl_init_def DefaultImpl_init_def TiberoImpl_batch_separator_def
        TiberoImpl_command_terminator_def split: option.splits)

lemma TiberoImpl_init_script_pass:
  "output_buffer (snd (exec_all (TiberoImpl_init conn True out opts) stmts)) =
     out @ concat (map (\<lambda>c. c #
       (if batch_separator (TiberoImpl_init conn True out opts) = [] then []
        else [batch_separator (TiberoImpl_init conn True out opts)])) stmts)"
proof -
  let ?self = "TiberoImpl_init conn True out opts"
  have "as_sql ?self" by (simp add: TiberoImpl_init_fields)
  then have "exec_all ?self stmts =
     (Inr (),
      ?self\<lparr> output_buffer := output_buffer ?self @
               concat (map (\<lambda>c. (c @ command_terminator ?self) #
                                 (if batch_separator ?self = [] then []
                                  else [batch_separator ?self])) stmts) \<rparr>)"
    by (rule exec_all_script_entries)
  then have "output_buffer (snd (exec_all ?self stmts)) =
      output_buffer ?self @
               concat (map (\<lambda>c. (c @ command_terminator ?self) #
                                 (if batch_separator ?self = [] then []
                                  else [batch_separator ?self])) stmts)"
    by simp
  then show ?thesis
    by (simp add: TiberoImpl_init_fields(2,3))
qed

text \<open>
  C10. The constructor leaves the batch separator at \<open>/\<close> when the context has no
  option \<open>tibero_batch_separator\<close> and takes the value of the option when it has one.
  A pass in script mode on the new instance then writes that separator after each
  statement: \<open>/\<close> without the option, the value of the option when it is not empty,
  and nothing but the statements when the option is the empty string.
\<close>

theorem batch_separator_override:
  "batch_separator (TiberoImpl_init conn script out opts) =
     (case opts ''tibero_batch_separator'' of None \<Rightarrow> ''/'' | Some v \<Rightarrow> v)
   \<and> (opts ''tibero_batch_separator'' = None \<longrightarrow>
        output_buffer (snd (exec_all (TiberoImpl_init conn True out opts) stmts)) =
          out @ concat (map (\<lambda>c. [c, ''/'']) stmts))
   \<and> (opts ''tibero_batch_separator'' = Some v \<and> v \<noteq> [] \<longrightarrow>
        output_buffer (snd (exec_all (TiberoImpl_init conn True out opts) stmts)) =
          out @ concat (map (\<lambda>c. [c, v]) stmts))
   \<and> (opts ''tibero_batch_separator'' = Some [] \<longrightarrow>
        output_buffer (snd (exec_all (TiberoImpl_init conn True out opts) stmts)) = out @ stmts)"
proof (intro conjI impI)
  show "batch_separator (TiberoImpl_init conn script out opts) =
     (case opts ''tibero_batch_separator'' of None \<Rightarrow> ''/'' | Some v \<Rightarrow> v)"
    by (rule TiberoImpl_init_fields)
next
  assume "opts ''tibero_batch_separator'' = None"
  then have "batch_separator (TiberoImpl_init conn True out opts) = ''/''"
    by (simp add: TiberoImpl_init_fields)
  then show "output_buffer (snd (exec_all (TiberoImpl_init conn True out opts) stmts)) =
          out @ concat (map (\<lambda>c. [c, ''/'']) stmts)"
    by (simp add: TiberoImpl_init_script_pass)
next
  assume "opts ''tibero_batch_separator'' = Some v \<and> v \<noteq> []"
  then have "batch_separator (TiberoImpl_init conn True out opts) = v" and "v \<noteq> []"
    by (simp_all add: TiberoImpl_init_fields)
  then show "output_buffer (snd (exec_all (TiberoImpl_init conn True out opts) stmts)) =
          out @ concat (map (\<lambda>c. [c, v]) stmts)"
    by (simp add: TiberoImpl_init_script_pass)
next
  assume "opts ''tibero_batch_separator'' = Some []"
  then have "batch_separator (TiberoImpl_init conn True out opts) = []"
    by (simp add: TiberoImpl_init_fields)
  then show "output_buffer (snd (exec_all (TiberoImpl_init conn True out opts) stmts)) = out @ stmts"
    by (simp add: TiberoImpl_init_script_pass concat_singletons)
qed

theorem batch_separator_override_witness:
  "output_buffer (snd (exec_all
       (TiberoImpl_init (\<lambda>statement. Inr () :: unit + unit) True [] Map.empty)
       [''DROP TABLE a'', ''DROP TABLE b''])) =
     [''DROP TABLE a'', ''/'', ''DROP TABLE b'', ''/'']
   \<and> output_buffer (snd (exec_all
       (TiberoImpl_init (\<lambda>statement. Inr () :: unit + unit) True []
          [''tibero_batch_separator'' \<mapsto> ''GO''])
       [''DROP TABLE a'', ''DROP TABLE b''])) =
     [''DROP TABLE a'', ''GO'', ''DROP TABLE b'', ''GO'']
   \<and> output_buffer (snd (exec_all
       (TiberoImpl_init (\<lambda>statement. Inr () :: unit + unit) True []
          [''tibero_batch_separator'' \<mapsto> []])
       [''DROP TABLE a'', ''DROP TABLE b''])) =
     [''DROP TABLE a'', ''DROP TABLE b'']"
proof -
  let ?conn = "\<lambda>statement. Inr () :: unit + unit"
  let ?stmts = "[''DROP TABLE a'', ''DROP TABLE b'']"
  let ?go = "[''tibero_batch_separator'' \<mapsto> ''GO'']"
  let ?none = "[''tibero_batch_separator'' \<mapsto> []] :: string \<rightharpoonup> string"
  have d: "(Map.empty :: string \<rightharpoonup> string) ''tibero_batch_separator'' = None"
    by simp
  from batch_separator_override [of ?conn True "[]" Map.empty ?stmts "[]"] have
    "(Map.empty :: string \<rightharpoonup> string) ''tibero_batch_separator'' = None \<longrightarrow>
       output_buffer (snd (exec_all (TiberoImpl_init ?conn True [] Map.empty) ?stmts)) =
         [] @ concat (map (\<lambda>c. [c, ''/'']) ?stmts)"
    by (elim conjE)
  from this d have "output_buffer (snd (exec_all (TiberoImpl_init ?conn True [] Map.empty) ?stmts)) =
         [] @ concat (map (\<lambda>c. [c, ''/'']) ?stmts)"
    by (rule mp)
  also have "\<dots> = [''DROP TABLE a'', ''/'', ''DROP TABLE b'', ''/'']"
    by simp
  finally have slash: "output_buffer (snd (exec_all (TiberoImpl_init ?conn True [] Map.empty) ?stmts)) =
      [''DROP TABLE a'', ''/'', ''DROP TABLE b'', ''/'']" .
  have g: "?go ''tibero_batch_separator'' = Some ''GO'' \<and> ''GO'' \<noteq> []"
    by simp
  from batch_separator_override [of ?conn True "[]" ?go ?stmts "''GO''"] have
    "?go ''tibero_batch_separator'' = Some ''GO'' \<and> ''GO'' \<noteq> [] \<longrightarrow>
       output_buffer (snd (exec_all (TiberoImpl_init ?conn True [] ?go) ?stmts)) =
         [] @ concat (map (\<lambda>c. [c, ''GO'']) ?stmts)"
    by (elim conjE)
  from this g have "output_buffer (snd (exec_all (TiberoImpl_init ?conn True [] ?go) ?stmts)) =
         [] @ concat (map (\<lambda>c. [c, ''GO'']) ?stmts)"
    by (rule mp)
  also have "\<dots> = [''DROP TABLE a'', ''GO'', ''DROP TABLE b'', ''GO'']"
    by simp
  finally have go: "output_buffer (snd (exec_all (TiberoImpl_init ?conn True [] ?go) ?stmts)) =
      [''DROP TABLE a'', ''GO'', ''DROP TABLE b'', ''GO'']" .
  have n: "?none ''tibero_batch_separator'' = Some []"
    by simp
  from batch_separator_override [of ?conn True "[]" ?none ?stmts "[]"] have
    "?none ''tibero_batch_separator'' = Some [] \<longrightarrow>
       output_buffer (snd (exec_all (TiberoImpl_init ?conn True [] ?none) ?stmts)) = [] @ ?stmts"
    by (elim conjE)
  from this n have "output_buffer (snd (exec_all (TiberoImpl_init ?conn True [] ?none) ?stmts)) =
      [] @ ?stmts"
    by (rule mp)
  also have "\<dots> = ?stmts" by simp
  finally have none: "output_buffer (snd (exec_all (TiberoImpl_init ?conn True [] ?none) ?stmts)) =
      ?stmts" .
  from slash go none show ?thesis by (intro conjI)
qed

end
